theory Spec2Isabelle
  imports Complex_Main "HOL-Library.Word"
begin

section \<open>JavaScript values\<close>

text \<open>
  A JavaScript string is a sequence of UTF-16 code units.  String literals of the
  source are written \<open>lit ''...''\<close>.
\<close>

type_synonym jsstring = "16 word list"

definition lit :: "string \<Rightarrow> jsstring" where
  "lit s = map (\<lambda>c. of_nat (of_char c)) s"

text \<open>
  Numbers are kept as far as the code looks at them: it only tests them for
  truthiness and passes them on.  A finite double is a rational; both zeros are
  \<open>Finite 0\<close>.
\<close>

datatype jsnum = Finite rat | PosInfinity | NegInfinity | NaN

text \<open>
  A thrown value, as \<open>err instanceof Error ? err.message : String(err)\<close> sees it:
  an \<open>Error\<close> with its message, or another value with its string form.
\<close>

datatype thrown = ErrorObject jsstring | NonError jsstring

fun errMessage :: "thrown \<Rightarrow> jsstring" where
  "errMessage (ErrorObject m) = m"
| "errMessage (NonError s) = s"

text \<open>
  Values.  \<open>JUnserialisable err\<close> is an object that \<open>JSON.stringify\<close> throws on
  (it is cyclic, holds a BigInt, or has a \<open>toJSON\<close> that throws), with the error
  thrown; an agent may put one into an event, a parsed JSON body never holds one.
\<close>

datatype jsval =
    JUndefined
  | JNull
  | JBool bool
  | JNum jsnum
  | JStr jsstring
  | JArr "jsval list"
  | JObj "(jsstring \<times> jsval) list"
  | JUnserialisable thrown

text \<open>ToBoolean: what \<open>!v\<close> and \<open>v || w\<close> test.\<close>

fun truthy :: "jsval \<Rightarrow> bool" where
  "truthy JUndefined = False"
| "truthy JNull = False"
| "truthy (JBool b) = b"
| "truthy (JNum n) = (n \<noteq> Finite 0 \<and> n \<noteq> NaN)"
| "truthy (JStr s) = (s \<noteq> [])"
| "truthy (JArr vs) = True"
| "truthy (JObj kvs) = True"
| "truthy (JUnserialisable err) = True"

text \<open>
  What \<open>JSON.stringify\<close> throws on a value, if anything: the error of the first
  unserialisable part met, members in order.
\<close>

fun firstSome :: "'a option list \<Rightarrow> 'a option" where
  "firstSome [] = None"
| "firstSome (None # xs) = firstSome xs"
| "firstSome (Some x # xs) = Some x"

fun stringifyError :: "jsval \<Rightarrow> thrown option" where
  "stringifyError (JUnserialisable err) = Some err"
| "stringifyError (JArr vs) = firstSome (map stringifyError vs)"
| "stringifyError (JObj kvs) = firstSome (map (\<lambda>kv. stringifyError (snd kv)) kvs)"
| "stringifyError JUndefined = None"
| "stringifyError JNull = None"
| "stringifyError (JBool b) = None"
| "stringifyError (JNum n) = None"
| "stringifyError (JStr s) = None"

text \<open>\<open>x || y\<close> where \<open>x\<close> is a string or undefined and \<open>y\<close> a string.\<close>

definition strOr :: "jsstring option \<Rightarrow> jsstring \<Rightarrow> jsstring" where
  "strOr x y = (case x of None \<Rightarrow> y | Some s \<Rightarrow> if s = [] then y else s)"

text \<open>\<open>v || w\<close> on arbitrary values.\<close>

definition valOr :: "jsval \<Rightarrow> jsval \<Rightarrow> jsval" where
  "valOr v w = (if truthy v then v else w)"

text \<open>
  \<open>String.prototype.trim\<close> strips the code units of WhiteSpace and LineTerminator
  from both ends.
\<close>

definition isWhiteSpace :: "16 word \<Rightarrow> bool" where
  "isWhiteSpace c \<longleftrightarrow>
     c \<in> {0x0009, 0x000A, 0x000B, 0x000C, 0x000D, 0x0020, 0x00A0, 0x1680,
          0x2028, 0x2029, 0x202F, 0x205F, 0x3000, 0xFEFF}
     \<or> (0x2000 \<le> c \<and> c \<le> 0x200A)"

definition trim :: "jsstring \<Rightarrow> jsstring" where
  "trim s = rev (dropWhile isWhiteSpace (rev (dropWhile isWhiteSpace s)))"

text \<open>
  \<open>s.split(sep)\<close> for a one-unit separator: the pieces between the separators,
  \<open>['']\<close> for the empty string.
\<close>

fun split :: "16 word \<Rightarrow> jsstring \<Rightarrow> jsstring list" where
  "split sep [] = [[]]"
| "split sep (c # cs) =
     (if c = sep then [] # split sep cs
      else (case split sep cs of [] \<Rightarrow> [[c]] | w # ws \<Rightarrow> (c # w) # ws))"

definition comma :: "16 word" where
  "comma = 0x002C"

text \<open>\<open>xs.join(sep)\<close> on an array of strings.\<close>

fun join :: "jsstring \<Rightarrow> jsstring list \<Rightarrow> jsstring" where
  "join sep [] = []"
| "join sep [x] = x"
| "join sep (x # y # ys) = x @ sep @ join sep (y # ys)"

section \<open>Configuration and the model chain\<close>

text \<open>The two variables of \<open>process.env\<close> that \<open>getModelChain\<close> reads; \<open>None\<close> is unset.\<close>

record env =
  DEXTER_MODEL :: "jsstring option"
  DEXTER_FALLBACK_MODELS :: "jsstring option"

text \<open>
  The loop \<open>for (const fb of fallbacks) if (!chain.includes(fb)) chain.push(fb)\<close>,
  with the growing chain as accumulator.
\<close>

fun pushNew :: "jsstring list \<Rightarrow> jsstring list \<Rightarrow> jsstring list" where
  "pushNew chain [] = chain"
| "pushNew chain (fb # fbs) =
     pushNew (if fb \<in> set chain then chain else chain @ [fb]) fbs"

definition getModelChain :: "env \<Rightarrow> jsstring option \<Rightarrow> jsstring list" where
  "getModelChain e requestModel =
     (let primary = strOr requestModel (strOr (DEXTER_MODEL e) (lit ''gpt-5.2''));
          fallbacks = filter (\<lambda>m. m \<noteq> [])
                        (map trim (split comma (strOr (DEXTER_FALLBACK_MODELS e) [])))
      in pushNew [primary] fallbacks)"

section \<open>The agent run and its reduction\<close>

text \<open>
  An event of the agent's stream is an object with a \<open>type\<close> and further
  properties; a property the event does not have reads as \<open>JUndefined\<close>.
\<close>

record event =
  ev_type :: jsstring
  ev_tool :: jsval
  ev_args :: jsval
  ev_duration :: jsval
  ev_answer :: jsval
  ev_iterations :: jsval
  ev_totalTime :: jsval

text \<open>
  The agent is an external collaborator.  One run, \<open>Agent.create({model,
  maxIterations}).run(query)\<close>, is given by the finite sequence of events it yields
  and by how it stops: the stream ends (\<open>raised = None\<close>) or an error is raised
  after these events (\<open>raised = Some err\<close>; this covers \<open>Agent.create\<close> throwing,
  with no events).  The run contract promises a finite stream; a run that never
  stops would keep the handler from answering and has no value here.  Within one
  request each model is run at most once, so a run is a function of the model, the
  budget and the query.
\<close>

record run =
  events :: "event list"
  raised :: "thrown option"

type_synonym agent = "jsstring \<Rightarrow> jsval \<Rightarrow> jsval \<Rightarrow> run"

record toolCall =
  tool :: jsval
  args :: jsval
  duration :: jsval

record result =
  answer :: jsval
  toolCalls :: "toolCall list"
  iterations :: jsval
  totalTime :: jsval

definition initial :: result where
  "initial = \<lparr>answer = JStr [], toolCalls = [],
              iterations = JNum (Finite 0), totalTime = JNum (Finite 0)\<rparr>"

text \<open>The body of the \<open>for await\<close> loop: two independent tests on \<open>event.type\<close>.\<close>

definition onEvent :: "result \<Rightarrow> event \<Rightarrow> result" where
  "onEvent r ev =
     (let r1 = (if ev_type ev = lit ''tool_end''
                then r\<lparr>toolCalls := toolCalls r @
                        [\<lparr>tool = ev_tool ev, args = ev_args ev, duration = ev_duration ev\<rparr>]\<rparr>
                else r)
      in if ev_type ev = lit ''done''
         then r1\<lparr>answer := ev_answer ev, iterations := ev_iterations ev,
                 totalTime := ev_totalTime ev\<rparr>
         else r1)"

fun consume :: "result \<Rightarrow> event list \<Rightarrow> result" where
  "consume r [] = r"
| "consume r (ev # evs) = consume (onEvent r ev) evs"

text \<open>\<open>runAgent\<close> returns the reduced result, or throws what the run raised.\<close>

definition runAgent :: "agent \<Rightarrow> jsval \<Rightarrow> jsstring \<Rightarrow> jsval \<Rightarrow> thrown + result" where
  "runAgent ag query model maxIterations =
     (let r = ag model maxIterations query
      in case raised r of
           Some err \<Rightarrow> Inl err
         | None \<Rightarrow> Inr (consume initial (events r)))"

text \<open>
  \<open>Response.json\<close> serialises its argument and throws what the serialisation
  throws.  For a result the members are met in the order \<open>answer\<close>, \<open>toolCalls\<close>
  (each call: \<open>tool\<close>, \<open>args\<close>, \<open>duration\<close>), \<open>iterations\<close>, \<open>totalTime\<close>; the
  \<open>model\<close> added by the fallback server is a string.
\<close>

definition resultJsonError :: "result \<Rightarrow> thrown option" where
  "resultJsonError r =
     firstSome
       ([stringifyError (answer r)] @
        concat (map (\<lambda>c. [stringifyError (tool c), stringifyError (args c),
                             stringifyError (duration c)]) (toolCalls r)) @
        [stringifyError (iterations r), stringifyError (totalTime r)])"

section \<open>The HTTP handler\<close>

text \<open>
  What a request does besides answering: console lines and agent runs, in order.
  \<open>AgentRun model maxIterations query\<close> records one run started.
\<close>

datatype effect =
    ConsoleLog jsstring
  | ConsoleError jsstring
  | AgentRun jsstring jsval jsval

text \<open>
  The JSON bodies the handlers send.  \<open>HealthBody\<close> is \<open>{status, primaryModel,
  fallbackModels}\<close>, where \<open>models[0]\<close> of an empty array would be undefined;
  \<open>ResultBody r m\<close> is \<open>{...r, model: m}\<close>; \<open>StatusBody\<close> is \<open>{status}\<close> and
  \<open>PlainResultBody r\<close> is \<open>r\<close> alone.  Every response carries the same CORS
  headers, which are left out.
\<close>

datatype payload =
    NoBody
  | ErrorBody jsstring
  | HealthBody jsstring "jsstring option" "jsstring list"
  | ResultBody result jsstring
  | StatusBody jsstring
  | PlainResultBody result

record response =
  status :: nat
  payload :: payload

text \<open>
  The request body after \<open>await req.json()\<close>, at the type the code casts it to.
  \<open>query\<close> and \<open>maxIterations\<close> are only tested for truthiness and handed to the
  agent, so they are arbitrary values (\<open>JUndefined\<close> when absent); \<open>model\<close> is a
  string or absent, as \<open>getModelChain\<close> declares its argument.
\<close>

record reqBody =
  query :: jsval
  model :: "jsstring option"
  maxIterations :: jsval

text \<open>
  \<open>json = Inl err\<close>: reading the body throws before the validation (malformed
  JSON, or a body such as \<open>null\<close> whose property cannot be read).
\<close>

record request =
  httpMethod :: jsstring
  pathname :: jsstring
  json :: "thrown + reqBody"

record loopState =
  errors :: "jsstring list"
  trace :: "effect list"

text \<open>
  The body of the inner \<open>try\<close> after its log line: \<open>runAgent\<close>, then
  \<open>Response.json({...result, model})\<close>.  Either may throw, and the \<open>catch\<close> sees
  no difference.
\<close>

definition attempt :: "agent \<Rightarrow> jsval \<Rightarrow> jsstring \<Rightarrow> jsval \<Rightarrow> thrown + response" where
  "attempt ag q m maxIter =
     (case runAgent ag q m maxIter of
        Inl err \<Rightarrow> Inl err
      | Inr res \<Rightarrow>
          (case resultJsonError res of
             Some err \<Rightarrow> Inl err
           | None \<Rightarrow> Inr \<lparr>status = 200, payload = ResultBody res m\<rparr>))"

text \<open>
  The loop \<open>for (const model of models)\<close> of the research endpoint.  \<open>Some resp\<close>
  is the \<open>return\<close> from inside the loop; \<open>None\<close> means the loop ran to its end.
\<close>

fun tryModels ::
  "agent \<Rightarrow> jsval \<Rightarrow> jsval \<Rightarrow> jsstring list \<Rightarrow> loopState \<Rightarrow> response option \<times> loopState"
where
  "tryModels ag q maxIter [] st = (None, st)"
| "tryModels ag q maxIter (m # ms) st =
     (let st1 = st\<lparr>trace := trace st @
                   [ConsoleLog (lit ''[research] trying model: '' @ m),
                    AgentRun m maxIter q]\<rparr>
      in case attempt ag q m maxIter of
           Inr resp \<Rightarrow> (Some resp, st1)
         | Inl err \<Rightarrow>
             (let msg = errMessage err
              in tryModels ag q maxIter ms
                   (st1\<lparr>trace := trace st1 @
                          [ConsoleError (lit ''[research] model '' @ m @ lit '' failed: '' @ msg)],
                        errors := errors st1 @ [m @ lit '': '' @ msg]\<rparr>)))"

definition fetch :: "env \<Rightarrow> agent \<Rightarrow> request \<Rightarrow> response \<times> effect list" where
  "fetch e ag req =
     (if httpMethod req = lit ''OPTIONS'' then (\<lparr>status = 204, payload = NoBody\<rparr>, [])
      else if pathname req = lit ''/api/health'' \<and> httpMethod req = lit ''GET'' then
        (let models = getModelChain e None
         in (\<lparr>status = 200,
              payload = HealthBody (lit ''ok'')
                          (case models of [] \<Rightarrow> None | m # ms \<Rightarrow> Some m) (drop 1 models)\<rparr>, []))
      else if pathname req = lit ''/api/research'' \<and> httpMethod req = lit ''POST'' then
        (case json req of
           Inl err \<Rightarrow> (\<lparr>status = 500, payload = ErrorBody (errMessage err)\<rparr>, [])
         | Inr body \<Rightarrow>
             if \<not> truthy (query body) then
               (\<lparr>status = 400, payload = ErrorBody (lit ''Missing required field: query'')\<rparr>, [])
             else
               (let models = getModelChain e (model body);
                    maxIter = valOr (maxIterations body) (JNum (Finite 10))
                in case tryModels ag (query body) maxIter models \<lparr>errors = [], trace = []\<rparr> of
                     (Some resp, st) \<Rightarrow> (resp, trace st)
                   | (None, st) \<Rightarrow>
                       (\<lparr>status = 500,
                         payload = ErrorBody (lit ''All models failed. '' @
                                               join (lit '' | '') (errors st))\<rparr>,
                        trace st)))
      else (\<lparr>status = 404, payload = ErrorBody (lit ''Not found'')\<rparr>, []))"

text \<open>
  The handler of \<open>src/server.ts\<close>, the server without a fallback chain: one
  agent run for the requested or configured model, nothing logged.
\<close>

definition fetchBasic :: "env \<Rightarrow> agent \<Rightarrow> request \<Rightarrow> response \<times> effect list" where
  "fetchBasic e ag req =
     (if httpMethod req = lit ''OPTIONS'' then (\<lparr>status = 204, payload = NoBody\<rparr>, [])
      else if pathname req = lit ''/api/health'' \<and> httpMethod req = lit ''GET'' then
        (\<lparr>status = 200, payload = StatusBody (lit ''ok'')\<rparr>, [])
      else if pathname req = lit ''/api/research'' \<and> httpMethod req = lit ''POST'' then
        (case json req of
           Inl err \<Rightarrow> (\<lparr>status = 500, payload = ErrorBody (errMessage err)\<rparr>, [])
         | Inr body \<Rightarrow>
             if \<not> truthy (query body) then
               (\<lparr>status = 400, payload = ErrorBody (lit ''Missing required field: query'')\<rparr>, [])
             else
               (let m = strOr (model body) (strOr (DEXTER_MODEL e) (lit ''gpt-5.2''));
                    maxIter = valOr (maxIterations body) (JNum (Finite 10));
                    r = ag m maxIter (query body)
                in case raised r of
                     Some err \<Rightarrow>
                       (\<lparr>status = 500, payload = ErrorBody (errMessage err)\<rparr>,
                        [AgentRun m maxIter (query body)])
                   | None \<Rightarrow>
                       (case resultJsonError (consume initial (events r)) of
                          Some err \<Rightarrow>
                            (\<lparr>status = 500, payload = ErrorBody (errMessage err)\<rparr>,
                             [AgentRun m maxIter (query body)])
                        | None \<Rightarrow>
                            (\<lparr>status = 200,
                              payload = PlainResultBody (consume initial (events r))\<rparr>,
                             [AgentRun m maxIter (query body)]))))
      else (\<lparr>status = 404, payload = ErrorBody (lit ''Not found'')\<rparr>, []))"

text \<open>Observers of a trace: the models whose run was started, and the budgets given.\<close>

fun startedModels :: "effect list \<Rightarrow> jsstring list" where
  "startedModels [] = []"
| "startedModels (AgentRun m maxIter q # es) = m # startedModels es"
| "startedModels (ConsoleLog s # es) = startedModels es"
| "startedModels (ConsoleError s # es) = startedModels es"


fun failureLines :: "effect list \<Rightarrow> jsstring list" where
  "failureLines [] = []"
| "failureLines (ConsoleError s # es) = s # failureLines es"
| "failureLines (AgentRun m maxIter q # es) = failureLines es"
| "failureLines (ConsoleLog s # es) = failureLines es"

section \<open>Sample configurations, agents and requests\<close>

text \<open>Concrete inputs at which the theorems below are evaluated.\<close>

definition researchRequest :: "reqBody \<Rightarrow> request" where
  "researchRequest b = \<lparr>httpMethod = lit ''POST'', pathname = lit ''/api/research'', json = Inr b\<rparr>"

definition healthRequest :: request where
  "healthRequest = \<lparr>httpMethod = lit ''GET'', pathname = lit ''/api/health'',
                     json = Inl (ErrorObject (lit ''Unexpected end of JSON input''))\<rparr>"

definition demoEnv :: env where
  "demoEnv = \<lparr>DEXTER_MODEL = Some (lit ''model-a''),
              DEXTER_FALLBACK_MODELS = Some (lit '' model-b , model-a,, model-c ,model-b'')\<rparr>"

definition toolEndEvent :: "jsstring \<Rightarrow> event" where
  "toolEndEvent name =
     \<lparr>ev_type = lit ''tool_end'', ev_tool = JStr name, ev_args = JObj [],
      ev_duration = JNum (Finite 5), ev_answer = JUndefined, ev_iterations = JUndefined,
      ev_totalTime = JUndefined\<rparr>"

definition doneEvent :: "jsstring \<Rightarrow> event" where
  "doneEvent ans =
     \<lparr>ev_type = lit ''done'', ev_tool = JUndefined, ev_args = JUndefined,
      ev_duration = JUndefined, ev_answer = JStr ans, ev_iterations = JNum (Finite 2),
      ev_totalTime = JNum (Finite 40)\<rparr>"

definition thinkingEvent :: event where
  "thinkingEvent =
     \<lparr>ev_type = lit ''thinking'', ev_tool = JUndefined, ev_args = JUndefined,
      ev_duration = JUndefined, ev_answer = JUndefined, ev_iterations = JUndefined,
      ev_totalTime = JUndefined\<rparr>"

definition boom :: "jsstring \<Rightarrow> thrown" where
  "boom m = ErrorObject (lit ''no key for '' @ m)"

definition agentOnlyC :: agent where
  "agentOnlyC m mi q =
     (if m = lit ''model-c''
      then \<lparr>events = [toolEndEvent (lit ''search''), doneEvent (lit ''42'')], raised = None\<rparr>
      else \<lparr>events = [], raised = Some (boom m)\<rparr>)"

definition agentAllFail :: agent where
  "agentAllFail m mi q = \<lparr>events = [toolEndEvent (lit ''search'')], raised = Some (boom m)\<rparr>"

definition agentNoDone :: agent where
  "agentNoDone m mi q = \<lparr>events = [toolEndEvent (lit ''search'')], raised = None\<rparr>"

definition bigintEvent :: event where
  "bigintEvent =
     \<lparr>ev_type = lit ''tool_end'', ev_tool = JStr (lit ''count''),
      ev_args = JObj [(lit ''n'',
                  JUnserialisable (ErrorObject (lit ''JSON.stringify cannot serialize BigInt.'')))],
      ev_duration = JNum (Finite 7), ev_answer = JUndefined, ev_iterations = JUndefined,
      ev_totalTime = JUndefined\<rparr>"

definition agentMixed :: agent where
  "agentMixed m mi q =
     (if m = lit ''model-a'' then \<lparr>events = [], raised = Some (boom m)\<rparr>
      else if m = lit ''model-b''
      then \<lparr>events = [bigintEvent, doneEvent (lit ''41'')], raised = None\<rparr>
      else \<lparr>events = [toolEndEvent (lit ''search''), doneEvent (lit ''42'')], raised = None\<rparr>)"

definition agentDoneOnlyC :: agent where
  "agentDoneOnlyC m mi q =
     (if m = lit ''model-c''
      then \<lparr>events = [toolEndEvent (lit ''search''), doneEvent (lit ''42'')], raised = None\<rparr>
      else \<lparr>events = [toolEndEvent (lit ''search'')], raised = None\<rparr>)"

definition agentSilent :: agent where
  "agentSilent m mi q = \<lparr>events = [], raised = None\<rparr>"

definition pairEnv :: env where
  "pairEnv = \<lparr>DEXTER_MODEL = Some (lit ''model-a''),
              DEXTER_FALLBACK_MODELS = Some (lit ''model-b'')\<rparr>"

definition bareEnv :: env where
  "bareEnv = \<lparr>DEXTER_MODEL = None, DEXTER_FALLBACK_MODELS = None\<rparr>"

definition mixedError :: "jsstring \<Rightarrow> thrown" where
  "mixedError m =
     (if m = lit ''model-a'' then boom m
      else ErrorObject (lit ''JSON.stringify cannot serialize BigInt.''))"

definition demoBody :: "jsval \<Rightarrow> reqBody" where
  "demoBody mi = \<lparr>query = JStr (lit ''x''), model = None, maxIterations = mi\<rparr>"

section \<open>Facts about the chain builder\<close>

lemma set_pushNew: "set (pushNew chain fbs) = set chain \<union> set fbs"
  by (induction fbs arbitrary: chain) auto

lemma distinct_pushNew: "distinct chain \<Longrightarrow> distinct (pushNew chain fbs)"
  by (induction fbs arbitrary: chain) auto

lemma pushNew_snoc:
  "pushNew chain (fbs @ [x]) =
     (if x \<in> set (pushNew chain fbs) then pushNew chain fbs else pushNew chain fbs @ [x])"
  by (induction fbs arbitrary: chain) auto

lemma pushNew_nonempty: "chain \<noteq> [] \<Longrightarrow> pushNew chain fbs \<noteq> []"
  by (induction fbs arbitrary: chain) auto

lemma pushNew_index:
  "pushNew chain fbs =
     chain @ map ((!) fbs) (filter (\<lambda>i. fbs ! i \<notin> set (chain @ take i fbs)) [0..<length fbs])"
proof (induction fbs rule: rev_induct)
  case Nil
  then show ?case by simp
next
  case (snoc x xs)
  let ?P = "\<lambda>ys i. ys ! i \<notin> set (chain @ take i ys)"
  have flt: "filter (?P (xs @ [x])) [0..<length xs] = filter (?P xs) [0..<length xs]"
    by (rule filter_cong) (auto simp: nth_append)
  have idx: "map ((!) (xs @ [x])) (filter (?P xs) [0..<length xs])
           = map ((!) xs) (filter (?P xs) [0..<length xs])"
    by (rule map_cong) (auto simp: nth_append)
  have upt: "[0..<length (xs @ [x])] = [0..<length xs] @ [length xs]"
    by simp
  have lst: "?P (xs @ [x]) (length xs) \<longleftrightarrow> x \<notin> set (pushNew chain xs)"
    by (simp add: set_pushNew)
  have rhs: "map ((!) (xs @ [x])) (filter (?P (xs @ [x])) [0..<length (xs @ [x])])
        = map ((!) xs) (filter (?P xs) [0..<length xs])
          @ (if x \<in> set (pushNew chain xs) then [] else [x])"
    unfolding upt filter_append map_append flt idx using lst by simp
  show ?case
  proof (cases "x \<in> set (pushNew chain xs)")
    case True
    then show ?thesis
      unfolding rhs pushNew_snoc using snoc.IH by simp
  next
    case False
    then show ?thesis
      unfolding rhs pushNew_snoc using snoc.IH by simp
  qed
qed

section \<open>Facts about the reduction and the loop\<close>

lemma lit_tool_end_neq_done: "lit ''tool_end'' \<noteq> lit ''done''"
  by (simp add: lit_def)

lemma lit_GET_neq_OPTIONS: "lit ''GET'' \<noteq> lit ''OPTIONS''"
  by (simp add: lit_def)

lemma lit_POST_neq_OPTIONS: "lit ''POST'' \<noteq> lit ''OPTIONS''"
  by (simp add: lit_def)

lemma lit_research_neq_health: "lit ''/api/research'' \<noteq> lit ''/api/health''"
  by (simp add: lit_def)

lemma toolCalls_onEvent:
  "toolCalls (onEvent r ev) =
     toolCalls r @ (if ev_type ev = lit ''tool_end''
                    then [\<lparr>tool = ev_tool ev, args = ev_args ev, duration = ev_duration ev\<rparr>]
                    else [])"
  by (simp add: onEvent_def Let_def)

lemma toolCalls_consume:
  "toolCalls (consume r evs) =
     toolCalls r @
     map (\<lambda>ev. \<lparr>tool = ev_tool ev, args = ev_args ev, duration = ev_duration ev\<rparr>)
       (filter (\<lambda>ev. ev_type ev = lit ''tool_end'') evs)"
  by (induction evs arbitrary: r) (simp_all add: toolCalls_onEvent)

lemma onEvent_not_done:
  "ev_type ev \<noteq> lit ''done'' \<Longrightarrow>
     answer (onEvent r ev) = answer r \<and> iterations (onEvent r ev) = iterations r \<and>
     totalTime (onEvent r ev) = totalTime r"
  by (simp add: onEvent_def Let_def)

lemma consume_no_done:
  "\<forall>ev \<in> set evs. ev_type ev \<noteq> lit ''done'' \<Longrightarrow>
     answer (consume r evs) = answer r \<and> iterations (consume r evs) = iterations r \<and>
     totalTime (consume r evs) = totalTime r"
  by (induction evs arbitrary: r) (simp_all add: onEvent_not_done)

lemma onEvent_done:
  "ev_type ev = lit ''done'' \<Longrightarrow>
     onEvent r ev = r\<lparr>answer := ev_answer ev, iterations := ev_iterations ev,
                      totalTime := ev_totalTime ev\<rparr>"
  by (simp add: onEvent_def Let_def lit_tool_end_neq_done [symmetric])

lemma onEvent_tool_end:
  "ev_type ev = lit ''tool_end'' \<Longrightarrow>
     onEvent r ev = r\<lparr>toolCalls := toolCalls r @
                       [\<lparr>tool = ev_tool ev, args = ev_args ev, duration = ev_duration ev\<rparr>]\<rparr>"
  by (simp add: onEvent_def Let_def lit_tool_end_neq_done)

lemma onEvent_other:
  "ev_type ev \<noteq> lit ''tool_end'' \<Longrightarrow> ev_type ev \<noteq> lit ''done'' \<Longrightarrow> onEvent r ev = r"
  by (simp add: onEvent_def Let_def)

lemma runAgent_raised:
  "raised (ag m mi q) = Some err \<Longrightarrow> runAgent ag q m mi = Inl err"
  by (simp add: runAgent_def Let_def)

lemma runAgent_ended:
  "raised (ag m mi q) = None \<Longrightarrow> runAgent ag q m mi = Inr (consume initial (events (ag m mi q)))"
  by (simp add: runAgent_def Let_def)

lemma attempt_raised:
  "raised (ag m mi q) = Some err \<Longrightarrow> attempt ag q m mi = Inl err"
  by (simp add: attempt_def runAgent_raised)

lemma attempt_unserialisable:
  "raised (ag m mi q) = None \<Longrightarrow>
   resultJsonError (consume initial (events (ag m mi q))) = Some err \<Longrightarrow>
   attempt ag q m mi = Inl err"
  by (simp add: attempt_def runAgent_ended)

lemma attempt_returns:
  "raised (ag m mi q) = None \<Longrightarrow>
   resultJsonError (consume initial (events (ag m mi q))) = None \<Longrightarrow>
   attempt ag q m mi =
     Inr \<lparr>status = 200, payload = ResultBody (consume initial (events (ag m mi q))) m\<rparr>"
  by (simp add: attempt_def runAgent_ended)

lemma attempt_Inr:
  "attempt ag q m mi = Inr resp \<Longrightarrow>
   raised (ag m mi q) = None \<and>
   resultJsonError (consume initial (events (ag m mi q))) = None \<and>
   resp = \<lparr>status = 200, payload = ResultBody (consume initial (events (ag m mi q))) m\<rparr>"
  by (auto simp: attempt_def runAgent_def Let_def split: option.splits)

lemma tryModels_failed_step:
  "attempt ag q m mi = Inl err \<Longrightarrow>
   tryModels ag q mi (m # ms) st =
   tryModels ag q mi ms
     (st\<lparr>trace := trace st @
            [ConsoleLog (lit ''[research] trying model: '' @ m),
             AgentRun m mi q,
             ConsoleError (lit ''[research] model '' @ m @ lit '' failed: '' @ errMessage err)],
          errors := errors st @ [m @ lit '': '' @ errMessage err]\<rparr>)"
  by (simp add: Let_def)

text \<open>The state after the attempts for \<open>pre\<close> have all failed.\<close>

lemma tryModels_skip:
  "\<forall>m \<in> set pre. attempt ag q m mi = Inl (err m) \<Longrightarrow>
   tryModels ag q mi (pre @ rest) st =
   tryModels ag q mi rest
     (st\<lparr>trace := trace st @
            concat (map (\<lambda>m. [ConsoleLog (lit ''[research] trying model: '' @ m),
                              AgentRun m mi q,
                              ConsoleError (lit ''[research] model '' @ m @ lit '' failed: '' @
                                            errMessage (err m))]) pre),
          errors := errors st @ map (\<lambda>m. m @ lit '': '' @ errMessage (err m)) pre\<rparr>)"
proof (induction pre arbitrary: st)
  case Nil
  then show ?case by simp
next
  case (Cons p pre)
  from Cons.prems have p: "attempt ag q p mi = Inl (err p)"
    by simp
  from Cons.prems have rest: "\<forall>m \<in> set pre. attempt ag q m mi = Inl (err m)"
    by simp
  show ?case
    by (simp add: p Let_def Cons.IH [OF rest])
qed

lemma startedModels_append: "startedModels (xs @ ys) = startedModels xs @ startedModels ys"
  by (induction xs rule: startedModels.induct) auto

lemma failureLines_append: "failureLines (xs @ ys) = failureLines xs @ failureLines ys"
  by (induction xs rule: failureLines.induct) auto


lemma startedModels_failed:
  "startedModels (concat (map (\<lambda>m. [ConsoleLog (f m), AgentRun m mi q, ConsoleError (g m)]) ms)) = ms"
  by (induction ms) auto

lemma failureLines_failed:
  "failureLines (concat (map (\<lambda>m. [ConsoleLog (f m), AgentRun m mi q, ConsoleError (g m)]) ms))
     = map g ms"
  by (induction ms) auto


lemma demo_chain: "getModelChain demoEnv None = [lit ''model-a'', lit ''model-b'', lit ''model-c'']"
  by (simp add: getModelChain_def demoEnv_def strOr_def lit_def comma_def trim_def isWhiteSpace_def)

lemma lit_cat: "lit (a @ b) = lit a @ lit b"
  by (simp add: lit_def)

lemma tryModels_first_success:
  "attempt ag q c mi = Inr resp \<Longrightarrow>
   tryModels ag q mi (c # post) st =
     (Some resp,
      st\<lparr>trace := trace st @ [ConsoleLog (lit ''[research] trying model: '' @ c),
                                AgentRun c mi q]\<rparr>)"
  by (simp add: Let_def)

lemma fetch_research:
  "httpMethod req = lit ''POST'' \<Longrightarrow> pathname req = lit ''/api/research'' \<Longrightarrow>
   json req = Inr b \<Longrightarrow> truthy (query b) \<Longrightarrow>
   fetch e ag req =
     (case tryModels ag (query b) (valOr (maxIterations b) (JNum (Finite 10)))
             (getModelChain e (model b)) \<lparr>errors = [], trace = []\<rparr> of
        (Some resp, st) \<Rightarrow> (resp, trace st)
      | (None, st) \<Rightarrow>
          (\<lparr>status = 500,
            payload = ErrorBody (lit ''All models failed. '' @ join (lit '' | '') (errors st))\<rparr>,
           trace st))"
  by (simp add: fetch_def Let_def lit_POST_neq_OPTIONS lit_research_neq_health)

lemma fetch_invalid:
  "httpMethod req = lit ''POST'' \<Longrightarrow> pathname req = lit ''/api/research'' \<Longrightarrow>
   json req = Inr b \<Longrightarrow> \<not> truthy (query b) \<Longrightarrow>
   fetch e ag req =
     (\<lparr>status = 400, payload = ErrorBody (lit ''Missing required field: query'')\<rparr>, [])"
  by (simp add: fetch_def Let_def lit_POST_neq_OPTIONS lit_research_neq_health)





lemma attempt_Inl_iff:
  "attempt ag q m mi = Inl err \<longleftrightarrow>
     raised (ag m mi q) = Some err \<or>
     (raised (ag m mi q) = None \<and>
      resultJsonError (consume initial (events (ag m mi q))) = Some err)"
  by (auto simp: attempt_def runAgent_def Let_def split: option.splits)

lemma pair_chain: "getModelChain pairEnv None = [lit ''model-a'', lit ''model-b'']"
  by (simp add: getModelChain_def pairEnv_def strOr_def lit_def comma_def trim_def isWhiteSpace_def)

lemma bare_chain: "getModelChain bareEnv None = [lit ''gpt-5.2'']"
  by (simp add: getModelChain_def bareEnv_def strOr_def comma_def trim_def)

section \<open>The claims\<close>

text \<open>
  C1, as the code has it.  \<open>runAgent\<close> does not look for a \<open>done\<close> event.  Take
  an attempt whose stream never emits \<open>done\<close>, whatever \<open>tool_end\<close> events it
  emits.  When the stream raises, the attempt is a failure: the loop records it and
  goes on with the next model of the chain.  When the stream ends without raising,
  \<open>runAgent\<close> does produce a result: the empty answer, zero iterations, zero total
  time, and one tool call per \<open>tool_end\<close> event.  The loop then answers 200 with
  that result, tagged with the model of the attempt, and starts no further run;
  only when serialising that result throws is the attempt recorded as a failure and
  the next model tried.
\<close>

theorem stream_without_done:
  assumes nodone: "\<forall>ev \<in> set (events (ag m mi q)). ev_type ev \<noteq> lit ''done''"
  shows
    "(let r = \<lparr>answer = JStr [],
               toolCalls =
                 map (\<lambda>ev. \<lparr>tool = ev_tool ev, args = ev_args ev, duration = ev_duration ev\<rparr>)
                   (filter (\<lambda>ev. ev_type ev = lit ''tool_end'') (events (ag m mi q))),
               iterations = JNum (Finite 0), totalTime = JNum (Finite 0)\<rparr>;
          started = st\<lparr>trace := trace st @
                           [ConsoleLog (lit ''[research] trying model: '' @ m),
                            AgentRun m mi q]\<rparr>;
          failed = (\<lambda>err.
             st\<lparr>trace := trace st @
                    [ConsoleLog (lit ''[research] trying model: '' @ m),
                     AgentRun m mi q,
                     ConsoleError (lit ''[research] model '' @ m @ lit '' failed: '' @
                                   errMessage err)],
                errors := errors st @ [m @ lit '': '' @ errMessage err]\<rparr>)
      in (raised (ag m mi q) = Some err \<longrightarrow>
            tryModels ag q mi (m # ms) st = tryModels ag q mi ms (failed err))
       \<and> (raised (ag m mi q) = None \<longrightarrow>
            runAgent ag q m mi = Inr r
          \<and> (resultJsonError r = None \<longrightarrow>
               tryModels ag q mi (m # ms) st =
                 (Some \<lparr>status = 200, payload = ResultBody r m\<rparr>, started))
          \<and> (resultJsonError r = Some err \<longrightarrow>
               tryModels ag q mi (m # ms) st = tryModels ag q mi ms (failed err))))"
proof -
  let ?r = "consume initial (events (ag m mi q))"
  have fields: "answer ?r = JStr []" "iterations ?r = JNum (Finite 0)"
    "totalTime ?r = JNum (Finite 0)"
    using consume_no_done [OF nodone, of initial] by (simp_all add: initial_def)
  have calls: "toolCalls ?r =
      map (\<lambda>ev. \<lparr>tool = ev_tool ev, args = ev_args ev, duration = ev_duration ev\<rparr>)
        (filter (\<lambda>ev. ev_type ev = lit ''tool_end'') (events (ag m mi q)))"
    by (simp add: toolCalls_consume initial_def)
  have res: "\<lparr>answer = JStr [],
                toolCalls =
                  map (\<lambda>ev. \<lparr>tool = ev_tool ev, args = ev_args ev, duration = ev_duration ev\<rparr>)
                    (filter (\<lambda>ev. ev_type ev = lit ''tool_end'') (events (ag m mi q))),
                iterations = JNum (Finite 0), totalTime = JNum (Finite 0)\<rparr> = ?r"
    by (rule result.equality) (simp_all add: fields calls)
  have raise: "tryModels ag q mi (m # ms) st =
      tryModels ag q mi ms
        (st\<lparr>trace := trace st @
                    [ConsoleLog (lit ''[research] trying model: '' @ m),
                     AgentRun m mi q,
                     ConsoleError (lit ''[research] model '' @ m @ lit '' failed: '' @
                                   errMessage err)],
                errors := errors st @ [m @ lit '': '' @ errMessage err]\<rparr>)"
    if "raised (ag m mi q) = Some err"
    by (rule tryModels_failed_step) (rule attempt_raised [where ag = ag and m = m and mi = mi and q = q, OF that])
  have unser: "tryModels ag q mi (m # ms) st =
      tryModels ag q mi ms
        (st\<lparr>trace := trace st @
                    [ConsoleLog (lit ''[research] trying model: '' @ m),
                     AgentRun m mi q,
                     ConsoleError (lit ''[research] model '' @ m @ lit '' failed: '' @
                                   errMessage err)],
                errors := errors st @ [m @ lit '': '' @ errMessage err]\<rparr>)"
    if "raised (ag m mi q) = None" "resultJsonError ?r = Some err"
    by (rule tryModels_failed_step) (rule attempt_unserialisable [where ag = ag and m = m and mi = mi and q = q, OF that])
  have ok: "tryModels ag q mi (m # ms) st =
      (Some \<lparr>status = 200, payload = ResultBody ?r m\<rparr>,
       st\<lparr>trace := trace st @
                           [ConsoleLog (lit ''[research] trying model: '' @ m),
                            AgentRun m mi q]\<rparr>)"
    if "raised (ag m mi q) = None" "resultJsonError ?r = None"
    by (rule tryModels_first_success) (rule attempt_returns [where ag = ag and m = m and mi = mi and q = q, OF that])
  have run: "runAgent ag q m mi = Inr ?r" if "raised (ag m mi q) = None"
    by (rule runAgent_ended [where ag = ag and m = m and mi = mi and q = q, OF that])
  show ?thesis
    unfolding Let_def res
    using raise unser ok run by blast
qed

theorem stream_without_done_witness:
  "map ev_type (events (agentNoDone (lit ''model-a'') (JNum (Finite 10)) (JStr (lit ''x'')))) =
     [lit ''tool_end'']
   \<and> raised (agentNoDone (lit ''model-a'') (JNum (Finite 10)) (JStr (lit ''x''))) = None
   \<and> tryModels agentNoDone (JStr (lit ''x'')) (JNum (Finite 10))
       [lit ''model-a'', lit ''model-b'', lit ''model-c''] \<lparr>errors = [], trace = []\<rparr> =
       (Some \<lparr>status = 200,
              payload = ResultBody
                \<lparr>answer = JStr [],
                 toolCalls = [\<lparr>tool = JStr (lit ''search''), args = JObj [],
                               duration = JNum (Finite 5)\<rparr>],
                 iterations = JNum (Finite 0), totalTime = JNum (Finite 0)\<rparr>
                (lit ''model-a'')\<rparr>,
        \<lparr>errors = [],
         trace = [ConsoleLog (lit ''[research] trying model: model-a''),
                  AgentRun (lit ''model-a'') (JNum (Finite 10)) (JStr (lit ''x''))]\<rparr>)
   \<and> map ev_type (events (agentAllFail (lit ''model-a'') (JNum (Finite 10)) (JStr (lit ''x'')))) =
       [lit ''tool_end'']
   \<and> raised (agentAllFail (lit ''model-a'') (JNum (Finite 10)) (JStr (lit ''x''))) =
       Some (boom (lit ''model-a''))
   \<and> tryModels agentAllFail (JStr (lit ''x'')) (JNum (Finite 10))
       [lit ''model-a''] \<lparr>errors = [], trace = []\<rparr> =
       (None,
        \<lparr>errors = [lit ''model-a: no key for model-a''],
         trace = [ConsoleLog (lit ''[research] trying model: model-a''),
                  AgentRun (lit ''model-a'') (JNum (Finite 10)) (JStr (lit ''x'')),
                  ConsoleError (lit ''[research] model model-a failed: no key for model-a'')]\<rparr>)"
proof -
  have nd1: "\<forall>ev \<in> set (events (agentNoDone (lit ''model-a'') (JNum (Finite 10))
                                 (JStr (lit ''x'')))). ev_type ev \<noteq> lit ''done''"
    by (simp add: agentNoDone_def toolEndEvent_def lit_tool_end_neq_done)
  have nd2: "\<forall>ev \<in> set (events (agentAllFail (lit ''model-a'') (JNum (Finite 10))
                                 (JStr (lit ''x'')))). ev_type ev \<noteq> lit ''done''"
    by (simp add: agentAllFail_def toolEndEvent_def lit_tool_end_neq_done)
  show ?thesis
    using stream_without_done [where ag = agentNoDone and m = "lit ''model-a''"
        and mi = "JNum (Finite 10)" and q = "JStr (lit ''x'')"
        and ms = "[lit ''model-b'', lit ''model-c'']" and st = "\<lparr>errors = [], trace = []\<rparr>"
        and err = "boom (lit ''model-a'')", OF nd1]
      stream_without_done [where ag = agentAllFail and m = "lit ''model-a''"
        and mi = "JNum (Finite 10)" and q = "JStr (lit ''x'')"
        and ms = "[]" and st = "\<lparr>errors = [], trace = []\<rparr>"
        and err = "boom (lit ''model-a'')", OF nd2]
    by (simp add: agentNoDone_def agentAllFail_def toolEndEvent_def boom_def Let_def
          resultJsonError_def lit_cat [symmetric] del: tryModels.simps)
       (simp add: lit_def)
qed

text \<open>
  The claim as first stated fails on a stream with one \<open>tool_end\<close> event and no
  \<open>done\<close>: \<open>runAgent\<close> returns a result, the request is answered 200 with
  \<open>model-a\<close>, and \<open>model-b\<close> is never tried.
\<close>

theorem stream_without_done_counterexample:
  "map ev_type (events (agentNoDone (lit ''model-a'') (JNum (Finite 10)) (JStr (lit ''x'')))) =
     [lit ''tool_end'']
   \<and> raised (agentNoDone (lit ''model-a'') (JNum (Finite 10)) (JStr (lit ''x''))) = None
   \<and> runAgent agentNoDone (JStr (lit ''x'')) (lit ''model-a'') (JNum (Finite 10)) =
       Inr \<lparr>answer = JStr [],
            toolCalls = [\<lparr>tool = JStr (lit ''search''), args = JObj [],
                          duration = JNum (Finite 5)\<rparr>],
            iterations = JNum (Finite 0), totalTime = JNum (Finite 0)\<rparr>
   \<and> getModelChain demoEnv None = [lit ''model-a'', lit ''model-b'', lit ''model-c'']
   \<and> fetch demoEnv agentNoDone (researchRequest (demoBody JUndefined)) =
       (\<lparr>status = 200,
         payload = ResultBody
           \<lparr>answer = JStr [],
            toolCalls = [\<lparr>tool = JStr (lit ''search''), args = JObj [],
                          duration = JNum (Finite 5)\<rparr>],
            iterations = JNum (Finite 0), totalTime = JNum (Finite 0)\<rparr>
           (lit ''model-a'')\<rparr>,
        [ConsoleLog (lit ''[research] trying model: model-a''),
         AgentRun (lit ''model-a'') (JNum (Finite 10)) (JStr (lit ''x''))])"
proof -
  have run: "runAgent agentNoDone (JStr (lit ''x'')) (lit ''model-a'') (JNum (Finite 10)) =
       Inr \<lparr>answer = JStr [],
            toolCalls = [\<lparr>tool = JStr (lit ''search''), args = JObj [],
                          duration = JNum (Finite 5)\<rparr>],
            iterations = JNum (Finite 0), totalTime = JNum (Finite 0)\<rparr>"
    by (simp add: runAgent_def agentNoDone_def toolEndEvent_def onEvent_def initial_def Let_def
          lit_tool_end_neq_done)
  have req: "httpMethod (researchRequest (demoBody JUndefined)) = lit ''POST''"
    "pathname (researchRequest (demoBody JUndefined)) = lit ''/api/research''"
    "json (researchRequest (demoBody JUndefined)) = Inr (demoBody JUndefined)"
    "truthy (query (demoBody JUndefined))"
    by (simp_all add: researchRequest_def demoBody_def lit_def)
  have body: "query (demoBody JUndefined) = JStr (lit ''x'')"
    "valOr (maxIterations (demoBody JUndefined)) (JNum (Finite 10)) = JNum (Finite 10)"
    "model (demoBody JUndefined) = None"
    by (simp_all add: demoBody_def valOr_def)
  have "fetch demoEnv agentNoDone (researchRequest (demoBody JUndefined)) =
       (\<lparr>status = 200,
         payload = ResultBody
           \<lparr>answer = JStr [],
            toolCalls = [\<lparr>tool = JStr (lit ''search''), args = JObj [],
                          duration = JNum (Finite 5)\<rparr>],
            iterations = JNum (Finite 0), totalTime = JNum (Finite 0)\<rparr>
           (lit ''model-a'')\<rparr>,
        [ConsoleLog (lit ''[research] trying model: model-a''),
         AgentRun (lit ''model-a'') (JNum (Finite 10)) (JStr (lit ''x''))])"
    unfolding fetch_research [OF req] body demo_chain
    by (simp add: attempt_def resultJsonError_def run Let_def lit_cat [symmetric])
  then show ?thesis
    using run by (simp add: demo_chain) (simp add: agentNoDone_def toolEndEvent_def)
qed

text \<open>
  C2.  For every request override \<open>m\<close> and every configuration, \<open>getModelChain\<close>
  returns the primary model followed by the fallback entries that are new.  The
  primary is \<open>m\<close> when \<open>m\<close> is present and non-empty, else the configured default
  when that is set and non-empty, else the literal \<open>gpt-5.2\<close>.  The entries are the
  pieces of the comma-separated fallback list, each trimmed, the empty ones
  discarded, in their original order; the entry at position \<open>i\<close> is appended exactly
  when it is neither the primary nor one of the entries before it, which is to say
  when it is not in the chain built so far.
\<close>

theorem getModelChain_shape:
  "getModelChain e m =
     (let dflt = (case DEXTER_MODEL e of
                    Some d \<Rightarrow> if d \<noteq> [] then d else lit ''gpt-5.2''
                  | None \<Rightarrow> lit ''gpt-5.2'');
          primary = (case m of Some s \<Rightarrow> if s \<noteq> [] then s else dflt | None \<Rightarrow> dflt);
          entries = filter (\<lambda>s. s \<noteq> [])
                      (map trim (split comma
                         (case DEXTER_FALLBACK_MODELS e of Some s \<Rightarrow> s | None \<Rightarrow> [])))
      in primary #
         map ((!) entries)
           (filter (\<lambda>i. entries ! i \<notin> set (primary # take i entries)) [0..<length entries]))"
proof -
  have p: "strOr m (strOr (DEXTER_MODEL e) (lit ''gpt-5.2'')) =
           (case m of
              Some s \<Rightarrow> if s \<noteq> [] then s
                        else (case DEXTER_MODEL e of
                                Some d \<Rightarrow> if d \<noteq> [] then d else lit ''gpt-5.2''
                              | None \<Rightarrow> lit ''gpt-5.2'')
            | None \<Rightarrow> (case DEXTER_MODEL e of
                         Some d \<Rightarrow> if d \<noteq> [] then d else lit ''gpt-5.2''
                       | None \<Rightarrow> lit ''gpt-5.2''))"
    by (simp add: strOr_def split: option.splits)
  have f: "strOr (DEXTER_FALLBACK_MODELS e) [] =
           (case DEXTER_FALLBACK_MODELS e of Some s \<Rightarrow> s | None \<Rightarrow> [])"
    by (simp add: strOr_def split: option.splits)
  show ?thesis
    unfolding getModelChain_def Let_def p f
    by (simp only: pushNew_index append_Cons append_Nil)
qed

theorem getModelChain_shape_witness:
  "getModelChain demoEnv (Some (lit ''model-c'')) = [lit ''model-c'', lit ''model-b'', lit ''model-a'']"
  unfolding getModelChain_shape [of demoEnv "Some (lit ''model-c'')"]
  by (simp add: demoEnv_def lit_def comma_def trim_def isWhiteSpace_def Let_def)

text \<open>
  C3.  For every input, absent request model, unset default and unset fallback list
  included, the chain returned by \<open>getModelChain\<close> is non-empty (length at least 1)
  and holds no identifier twice.
\<close>

theorem getModelChain_nonempty_distinct:
  "getModelChain e m \<noteq> [] \<and> 1 \<le> length (getModelChain e m) \<and> distinct (getModelChain e m)"
proof -
  have ne: "getModelChain e m \<noteq> []"
    by (simp add: getModelChain_def Let_def pushNew_nonempty)
  have d: "distinct (getModelChain e m)"
    by (simp add: getModelChain_def Let_def distinct_pushNew)
  from ne have "1 \<le> length (getModelChain e m)"
    by (cases "getModelChain e m") simp_all
  with ne d show ?thesis by simp
qed

theorem getModelChain_nonempty_distinct_witness:
  "getModelChain \<lparr>DEXTER_MODEL = None, DEXTER_FALLBACK_MODELS = None\<rparr> None = [lit ''gpt-5.2'']
   \<and> 1 \<le> length (getModelChain \<lparr>DEXTER_MODEL = None, DEXTER_FALLBACK_MODELS = None\<rparr> None)
   \<and> distinct (getModelChain \<lparr>DEXTER_MODEL = None, DEXTER_FALLBACK_MODELS = None\<rparr> None)"
  using getModelChain_nonempty_distinct [of "\<lparr>DEXTER_MODEL = None, DEXTER_FALLBACK_MODELS = None\<rparr>" None]
  by (simp add: getModelChain_def strOr_def comma_def trim_def Let_def)

text \<open>
  C4, as the code has it.  The loop tries the models in chain order and returns at
  the first attempt that succeeds.  An attempt fails when its run raises or when
  building its JSON response throws, and succeeds otherwise, also when its stream
  ended without a \<open>done\<close> event.  When the attempts for the models \<open>pre\<close> at the
  head of the chain all fail and the attempt for the next model \<open>c\<close> succeeds, the
  answer is 200 with the result of \<open>c\<close>, tagged \<open>model: c\<close>; the failures recorded
  are those of \<open>pre\<close>, one each, in order; the runs started are those of \<open>pre\<close>
  followed by \<open>c\<close>, and none for the models \<open>post\<close> after it.  For the chain
  \<open>[A, B, C]\<close> with A and B failing in this sense this gives \<open>model: C\<close> and
  exactly two failures, for A then B.
\<close>

theorem first_success_returns:
  assumes fails: "\<forall>m \<in> set pre. attempt ag q m mi = Inl (err m)"
    and ok: "attempt ag q c mi = Inr resp"
  shows "resp = \<lparr>status = 200, payload = ResultBody (consume initial (events (ag c mi q))) c\<rparr>
       \<and> fst (tryModels ag q mi (pre @ c # post) \<lparr>errors = [], trace = []\<rparr>) = Some resp
       \<and> errors (snd (tryModels ag q mi (pre @ c # post) \<lparr>errors = [], trace = []\<rparr>)) =
           map (\<lambda>m. m @ lit '': '' @ errMessage (err m)) pre
       \<and> startedModels (trace (snd (tryModels ag q mi (pre @ c # post) \<lparr>errors = [], trace = []\<rparr>))) =
           pre @ [c]
       \<and> failureLines (trace (snd (tryModels ag q mi (pre @ c # post) \<lparr>errors = [], trace = []\<rparr>))) =
           map (\<lambda>m. lit ''[research] model '' @ m @ lit '' failed: '' @ errMessage (err m)) pre
       \<and> (httpMethod req = lit ''POST'' \<and> pathname req = lit ''/api/research'' \<and>
          json req = Inr b \<and> truthy (query b) \<and> q = query b \<and>
          mi = valOr (maxIterations b) (JNum (Finite 10)) \<and>
          getModelChain e (model b) = pre @ c # post \<longrightarrow>
          fst (fetch e ag req) = resp
          \<and> startedModels (snd (fetch e ag req)) = pre @ [c]
          \<and> failureLines (snd (fetch e ag req)) =
              map (\<lambda>m. lit ''[research] model '' @ m @ lit '' failed: '' @ errMessage (err m)) pre)
       \<and> (attempt ag' q' m' mi' = Inl err' \<longleftrightarrow>
            raised (ag' m' mi' q') = Some err' \<or>
            (raised (ag' m' mi' q') = None \<and>
             resultJsonError (consume initial (events (ag' m' mi' q'))) = Some err'))"
proof -
  let ?st = "\<lparr>errors = [], trace = []\<rparr>"
  have resp: "resp = \<lparr>status = 200, payload = ResultBody (consume initial (events (ag c mi q))) c\<rparr>"
    using attempt_Inr [where ag = ag and q = q and m = c and mi = mi, OF ok] by simp
  have run: "tryModels ag q mi (pre @ c # post) ?st =
     (Some resp,
      \<lparr>errors = map (\<lambda>m. m @ lit '': '' @ errMessage (err m)) pre,
       trace = concat (map (\<lambda>m. [ConsoleLog (lit ''[research] trying model: '' @ m),
                              AgentRun m mi q,
                              ConsoleError (lit ''[research] model '' @ m @ lit '' failed: '' @
                                            errMessage (err m))]) pre)
               @ [ConsoleLog (lit ''[research] trying model: '' @ c), AgentRun c mi q]\<rparr>)"
    by (simp add: tryModels_skip [where pre = pre and ag = ag and mi = mi and q = q and err = err, OF fails]
          tryModels_first_success [where ag = ag and c = c and mi = mi and q = q, OF ok]
          del: tryModels.simps)
  have loop: "fst (tryModels ag q mi (pre @ c # post) ?st) = Some resp
       \<and> errors (snd (tryModels ag q mi (pre @ c # post) ?st)) =
           map (\<lambda>m. m @ lit '': '' @ errMessage (err m)) pre
       \<and> startedModels (trace (snd (tryModels ag q mi (pre @ c # post) ?st))) = pre @ [c]
       \<and> failureLines (trace (snd (tryModels ag q mi (pre @ c # post) ?st))) =
           map (\<lambda>m. lit ''[research] model '' @ m @ lit '' failed: '' @ errMessage (err m)) pre"
    unfolding run
    by (simp add: startedModels_append failureLines_append startedModels_failed failureLines_failed)
  have http: "fst (fetch e ag req) = resp
          \<and> startedModels (snd (fetch e ag req)) = pre @ [c]
          \<and> failureLines (snd (fetch e ag req)) =
              map (\<lambda>m. lit ''[research] model '' @ m @ lit '' failed: '' @ errMessage (err m)) pre"
    if "httpMethod req = lit ''POST''" "pathname req = lit ''/api/research''"
       "json req = Inr b" "truthy (query b)" "q = query b"
       "mi = valOr (maxIterations b) (JNum (Finite 10))"
       "getModelChain e (model b) = pre @ c # post"
  proof -
    have "fetch e ag req =
            (case tryModels ag q mi (pre @ c # post) ?st of
               (Some resp, st) \<Rightarrow> (resp, trace st)
             | (None, st) \<Rightarrow>
                 (\<lparr>status = 500,
                   payload = ErrorBody (lit ''All models failed. '' @ join (lit '' | '') (errors st))\<rparr>,
                  trace st))"
      using that by (simp add: fetch_research)
    then show ?thesis
      unfolding run
      by (simp add: startedModels_append failureLines_append startedModels_failed
            failureLines_failed)
  qed
  have means: "attempt ag' q' m' mi' = Inl err' \<longleftrightarrow>
            raised (ag' m' mi' q') = Some err' \<or>
            (raised (ag' m' mi' q') = None \<and>
             resultJsonError (consume initial (events (ag' m' mi' q'))) = Some err')"
    by (rule attempt_Inl_iff)
  from resp loop http means show ?thesis by blast
qed

theorem first_success_returns_witness:
  "getModelChain demoEnv (model (demoBody JUndefined)) =
     [lit ''model-a'', lit ''model-b''] @ lit ''model-c'' # []
   \<and> attempt agentMixed (JStr (lit ''x'')) (lit ''model-a'') (JNum (Finite 10)) =
       Inl (ErrorObject (lit ''no key for model-a''))
   \<and> attempt agentMixed (JStr (lit ''x'')) (lit ''model-b'') (JNum (Finite 10)) =
       Inl (ErrorObject (lit ''JSON.stringify cannot serialize BigInt.''))
   \<and> raised (agentMixed (lit ''model-b'') (JNum (Finite 10)) (JStr (lit ''x''))) = None
   \<and> fst (fetch demoEnv agentMixed (researchRequest (demoBody JUndefined))) =
       \<lparr>status = 200,
        payload = ResultBody
          \<lparr>answer = JStr (lit ''42''),
           toolCalls = [\<lparr>tool = JStr (lit ''search''), args = JObj [],
                         duration = JNum (Finite 5)\<rparr>],
           iterations = JNum (Finite 2), totalTime = JNum (Finite 40)\<rparr>
          (lit ''model-c'')\<rparr>
   \<and> startedModels (snd (fetch demoEnv agentMixed (researchRequest (demoBody JUndefined)))) =
       [lit ''model-a'', lit ''model-b'', lit ''model-c'']
   \<and> failureLines (snd (fetch demoEnv agentMixed (researchRequest (demoBody JUndefined)))) =
       [lit ''[research] model model-a failed: no key for model-a'',
        lit ''[research] model model-b failed: JSON.stringify cannot serialize BigInt.'']
   \<and> errors (snd (tryModels agentMixed (JStr (lit ''x'')) (JNum (Finite 10))
                  [lit ''model-a'', lit ''model-b'', lit ''model-c'']
                  \<lparr>errors = [], trace = []\<rparr>)) =
       [lit ''model-a: no key for model-a'',
        lit ''model-b: JSON.stringify cannot serialize BigInt.'']"
proof -
  let ?a = "lit ''model-a''" and ?b = "lit ''model-b''" and ?c = "lit ''model-c''"
  let ?mi = "JNum (Finite 10)" and ?q = "JStr (lit ''x'')"
  let ?resp = "\<lparr>status = 200,
        payload = ResultBody
          \<lparr>answer = JStr (lit ''42''),
           toolCalls = [\<lparr>tool = JStr (lit ''search''), args = JObj [],
                         duration = JNum (Finite 5)\<rparr>],
           iterations = JNum (Finite 2), totalTime = JNum (Finite 40)\<rparr>
          (lit ''model-c'')\<rparr>"
  have ne: "?b \<noteq> ?a" "?c \<noteq> ?a" "?c \<noteq> ?b"
    by (simp_all add: lit_def)
  have a: "attempt agentMixed ?q ?a ?mi = Inl (mixedError ?a)"
    by (simp add: attempt_def runAgent_def agentMixed_def mixedError_def)
  have b: "attempt agentMixed ?q ?b ?mi = Inl (mixedError ?b)"
    using ne
    by (simp add: attempt_def runAgent_def agentMixed_def mixedError_def bigintEvent_def
          doneEvent_def onEvent_def initial_def resultJsonError_def Let_def
          lit_tool_end_neq_done lit_tool_end_neq_done [symmetric])
  have fails: "\<forall>m \<in> set [?a, ?b]. attempt agentMixed ?q m ?mi = Inl (mixedError m)"
    using a b by simp
  have ok: "attempt agentMixed ?q ?c ?mi = Inr ?resp"
    using ne
    by (simp add: attempt_def runAgent_def agentMixed_def toolEndEvent_def
          doneEvent_def onEvent_def initial_def resultJsonError_def Let_def
          lit_tool_end_neq_done lit_tool_end_neq_done [symmetric])
  have chain: "getModelChain demoEnv (model (demoBody JUndefined)) = [?a, ?b] @ ?c # []"
    by (simp add: demoBody_def demo_chain)
  have req: "httpMethod (researchRequest (demoBody JUndefined)) = lit ''POST''"
    "pathname (researchRequest (demoBody JUndefined)) = lit ''/api/research''"
    "json (researchRequest (demoBody JUndefined)) = Inr (demoBody JUndefined)"
    "truthy (query (demoBody JUndefined))" "?q = query (demoBody JUndefined)"
    "?mi = valOr (maxIterations (demoBody JUndefined)) (JNum (Finite 10))"
    by (simp_all add: researchRequest_def demoBody_def valOr_def lit_def)
  have errs: "mixedError ?a = ErrorObject (lit ''no key for model-a'')"
    "mixedError ?b = ErrorObject (lit ''JSON.stringify cannot serialize BigInt.'')"
    using ne by (simp_all add: mixedError_def boom_def lit_cat [symmetric])
  have msgs: "?a @ lit '': '' @ lit ''no key for model-a'' = lit ''model-a: no key for model-a''"
    "?b @ lit '': '' @ lit ''JSON.stringify cannot serialize BigInt.'' =
       lit ''model-b: JSON.stringify cannot serialize BigInt.''"
    "lit ''[research] model '' @ ?a @ lit '' failed: '' @ lit ''no key for model-a'' =
       lit ''[research] model model-a failed: no key for model-a''"
    "lit ''[research] model '' @ ?b @ lit '' failed: '' @
       lit ''JSON.stringify cannot serialize BigInt.'' =
       lit ''[research] model model-b failed: JSON.stringify cannot serialize BigInt.''"
    by (simp_all add: lit_cat [symmetric])
  note inst = first_success_returns [where pre = "[?a, ?b]" and c = ?c and post = "[]"
      and ag = agentMixed and mi = ?mi and q = ?q and err = mixedError and e = demoEnv
      and req = "researchRequest (demoBody JUndefined)" and b = "demoBody JUndefined"
      and resp = ?resp, OF fails ok]
  from inst req chain
  have http: "fst (fetch demoEnv agentMixed (researchRequest (demoBody JUndefined))) = ?resp
          \<and> startedModels (snd (fetch demoEnv agentMixed (researchRequest (demoBody JUndefined)))) =
              [?a, ?b] @ [?c]
          \<and> failureLines (snd (fetch demoEnv agentMixed (researchRequest (demoBody JUndefined)))) =
              map (\<lambda>m. lit ''[research] model '' @ m @ lit '' failed: '' @ errMessage (mixedError m))
                [?a, ?b]"
    by blast
  from inst
  have loop: "errors (snd (tryModels agentMixed ?q ?mi ([?a, ?b] @ ?c # []) \<lparr>errors = [], trace = []\<rparr>)) =
           map (\<lambda>m. m @ lit '': '' @ errMessage (mixedError m)) [?a, ?b]"
    by blast
  have rb: "raised (agentMixed ?b ?mi ?q) = None"
    using ne by (simp add: agentMixed_def)
  from http loop chain a b rb show ?thesis
    by (simp add: errs msgs del: tryModels.simps)
qed

text \<open>
  With failure read as the specification defines it, the claim as first stated
  fails on the chain \<open>[A, B, C]\<close> where the streams of A and B end without \<open>done\<close>
  and only C emits it: the answer is 200 tagged \<open>model-a\<close>, no failure is recorded,
  and neither B nor C is tried.
\<close>

theorem first_success_counterexample:
  "getModelChain demoEnv None = [lit ''model-a'', lit ''model-b'', lit ''model-c'']
   \<and> map ev_type (events (agentDoneOnlyC (lit ''model-a'') (JNum (Finite 10)) (JStr (lit ''x'')))) =
       [lit ''tool_end'']
   \<and> raised (agentDoneOnlyC (lit ''model-a'') (JNum (Finite 10)) (JStr (lit ''x''))) = None
   \<and> map ev_type (events (agentDoneOnlyC (lit ''model-b'') (JNum (Finite 10)) (JStr (lit ''x'')))) =
       [lit ''tool_end'']
   \<and> raised (agentDoneOnlyC (lit ''model-b'') (JNum (Finite 10)) (JStr (lit ''x''))) = None
   \<and> map ev_type (events (agentDoneOnlyC (lit ''model-c'') (JNum (Finite 10)) (JStr (lit ''x'')))) =
       [lit ''tool_end'', lit ''done'']
   \<and> fst (fetch demoEnv agentDoneOnlyC (researchRequest (demoBody JUndefined))) =
       \<lparr>status = 200,
        payload = ResultBody
          \<lparr>answer = JStr [],
           toolCalls = [\<lparr>tool = JStr (lit ''search''), args = JObj [],
                         duration = JNum (Finite 5)\<rparr>],
           iterations = JNum (Finite 0), totalTime = JNum (Finite 0)\<rparr>
          (lit ''model-a'')\<rparr>
   \<and> startedModels (snd (fetch demoEnv agentDoneOnlyC (researchRequest (demoBody JUndefined)))) =
       [lit ''model-a'']
   \<and> failureLines (snd (fetch demoEnv agentDoneOnlyC (researchRequest (demoBody JUndefined)))) = []"
proof -
  have ne: "lit ''model-a'' \<noteq> lit ''model-c''" "lit ''model-b'' \<noteq> lit ''model-c''"
    by (simp_all add: lit_def)
  have req: "httpMethod (researchRequest (demoBody JUndefined)) = lit ''POST''"
    "pathname (researchRequest (demoBody JUndefined)) = lit ''/api/research''"
    "json (researchRequest (demoBody JUndefined)) = Inr (demoBody JUndefined)"
    "truthy (query (demoBody JUndefined))"
    by (simp_all add: researchRequest_def demoBody_def lit_def)
  have body: "query (demoBody JUndefined) = JStr (lit ''x'')"
    "valOr (maxIterations (demoBody JUndefined)) (JNum (Finite 10)) = JNum (Finite 10)"
    "model (demoBody JUndefined) = None"
    by (simp_all add: demoBody_def valOr_def)
  have att: "attempt agentDoneOnlyC (JStr (lit ''x'')) (lit ''model-a'') (JNum (Finite 10)) =
       Inr \<lparr>status = 200,
        payload = ResultBody
          \<lparr>answer = JStr [],
           toolCalls = [\<lparr>tool = JStr (lit ''search''), args = JObj [],
                         duration = JNum (Finite 5)\<rparr>],
           iterations = JNum (Finite 0), totalTime = JNum (Finite 0)\<rparr>
          (lit ''model-a'')\<rparr>"
    using ne
    by (simp add: attempt_def runAgent_def agentDoneOnlyC_def toolEndEvent_def onEvent_def
          initial_def resultJsonError_def Let_def lit_tool_end_neq_done)
  have "fetch demoEnv agentDoneOnlyC (researchRequest (demoBody JUndefined)) =
       (\<lparr>status = 200,
        payload = ResultBody
          \<lparr>answer = JStr [],
           toolCalls = [\<lparr>tool = JStr (lit ''search''), args = JObj [],
                         duration = JNum (Finite 5)\<rparr>],
           iterations = JNum (Finite 0), totalTime = JNum (Finite 0)\<rparr>
          (lit ''model-a'')\<rparr>,
        [ConsoleLog (lit ''[research] trying model: '' @ lit ''model-a''),
         AgentRun (lit ''model-a'') (JNum (Finite 10)) (JStr (lit ''x''))])"
    unfolding fetch_research [OF req] body demo_chain
    by (simp add: att Let_def)
  then show ?thesis
    using ne by (simp add: demo_chain) (simp add: agentDoneOnlyC_def toolEndEvent_def doneEvent_def)
qed

text \<open>
  C5, as the code has it.  An attempt fails when its run raises or when building
  its JSON response throws.  When every attempt of the chain fails in this sense,
  \<open>POST /api/research\<close> answers 500 with the error message \<open>All models failed.\<close>
  followed by one \<open>model: message\<close> pair per attempt, in attempt order, joined by
  \<open> | \<close>; the number of failures recorded equals the length of the chain, and one
  run was started per model.
\<close>

theorem all_models_fail:
  assumes fails: "\<forall>m \<in> set ms. attempt ag q m mi = Inl (err m)"
  shows "fst (tryModels ag q mi ms \<lparr>errors = [], trace = []\<rparr>) = None
       \<and> errors (snd (tryModels ag q mi ms \<lparr>errors = [], trace = []\<rparr>)) =
           map (\<lambda>m. m @ lit '': '' @ errMessage (err m)) ms
       \<and> length (errors (snd (tryModels ag q mi ms \<lparr>errors = [], trace = []\<rparr>))) = length ms
       \<and> startedModels (trace (snd (tryModels ag q mi ms \<lparr>errors = [], trace = []\<rparr>))) = ms
       \<and> (httpMethod req = lit ''POST'' \<and> pathname req = lit ''/api/research'' \<and>
          json req = Inr b \<and> truthy (query b) \<and> q = query b \<and>
          mi = valOr (maxIterations b) (JNum (Finite 10)) \<and>
          getModelChain e (model b) = ms \<longrightarrow>
          fst (fetch e ag req) =
            \<lparr>status = 500,
             payload = ErrorBody (lit ''All models failed. '' @
                         join (lit '' | '') (map (\<lambda>m. m @ lit '': '' @ errMessage (err m)) ms))\<rparr>
          \<and> startedModels (snd (fetch e ag req)) = ms)
       \<and> (attempt ag' q' m' mi' = Inl err' \<longleftrightarrow>
            raised (ag' m' mi' q') = Some err' \<or>
            (raised (ag' m' mi' q') = None \<and>
             resultJsonError (consume initial (events (ag' m' mi' q'))) = Some err'))"
proof -
  let ?st = "\<lparr>errors = [], trace = []\<rparr>"
  have run: "tryModels ag q mi ms ?st =
     (None,
      \<lparr>errors = map (\<lambda>m. m @ lit '': '' @ errMessage (err m)) ms,
       trace = concat (map (\<lambda>m. [ConsoleLog (lit ''[research] trying model: '' @ m),
                              AgentRun m mi q,
                              ConsoleError (lit ''[research] model '' @ m @ lit '' failed: '' @
                                            errMessage (err m))]) ms)\<rparr>)"
    using tryModels_skip [where pre = ms and rest = "[]" and ag = ag and mi = mi and q = q
        and err = err and st = ?st, OF fails]
    by simp
  have loop: "fst (tryModels ag q mi ms ?st) = None
       \<and> errors (snd (tryModels ag q mi ms ?st)) =
           map (\<lambda>m. m @ lit '': '' @ errMessage (err m)) ms
       \<and> length (errors (snd (tryModels ag q mi ms ?st))) = length ms
       \<and> startedModels (trace (snd (tryModels ag q mi ms ?st))) = ms"
    unfolding run by (simp add: startedModels_failed)
  have http: "fst (fetch e ag req) =
            \<lparr>status = 500,
             payload = ErrorBody (lit ''All models failed. '' @
                         join (lit '' | '') (map (\<lambda>m. m @ lit '': '' @ errMessage (err m)) ms))\<rparr>
          \<and> startedModels (snd (fetch e ag req)) = ms"
    if "httpMethod req = lit ''POST''" "pathname req = lit ''/api/research''"
       "json req = Inr b" "truthy (query b)" "q = query b"
       "mi = valOr (maxIterations b) (JNum (Finite 10))"
       "getModelChain e (model b) = ms"
  proof -
    have "fetch e ag req =
            (case tryModels ag q mi ms ?st of
               (Some resp, st) \<Rightarrow> (resp, trace st)
             | (None, st) \<Rightarrow>
                 (\<lparr>status = 500,
                   payload = ErrorBody (lit ''All models failed. '' @ join (lit '' | '') (errors st))\<rparr>,
                  trace st))"
      using that by (simp add: fetch_research)
    then show ?thesis
      unfolding run by (simp add: startedModels_failed)
  qed
  have means: "attempt ag' q' m' mi' = Inl err' \<longleftrightarrow>
            raised (ag' m' mi' q') = Some err' \<or>
            (raised (ag' m' mi' q') = None \<and>
             resultJsonError (consume initial (events (ag' m' mi' q'))) = Some err')"
    by (rule attempt_Inl_iff)
  from loop http means show ?thesis by blast
qed

theorem all_models_fail_witness:
  "getModelChain pairEnv (model (demoBody JUndefined)) = [lit ''model-a'', lit ''model-b'']
   \<and> attempt agentMixed (JStr (lit ''x'')) (lit ''model-a'') (JNum (Finite 10)) =
       Inl (ErrorObject (lit ''no key for model-a''))
   \<and> raised (agentMixed (lit ''model-a'') (JNum (Finite 10)) (JStr (lit ''x''))) =
       Some (ErrorObject (lit ''no key for model-a''))
   \<and> attempt agentMixed (JStr (lit ''x'')) (lit ''model-b'') (JNum (Finite 10)) =
       Inl (ErrorObject (lit ''JSON.stringify cannot serialize BigInt.''))
   \<and> fst (fetch pairEnv agentMixed (researchRequest (demoBody JUndefined))) =
       \<lparr>status = 500,
        payload = ErrorBody (lit (''All models failed. model-a: no key for model-a'' @
                    '' | model-b: JSON.stringify cannot serialize BigInt.''))\<rparr>
   \<and> startedModels (snd (fetch pairEnv agentMixed (researchRequest (demoBody JUndefined)))) =
       [lit ''model-a'', lit ''model-b'']
   \<and> length (errors (snd (tryModels agentMixed (JStr (lit ''x'')) (JNum (Finite 10))
                  [lit ''model-a'', lit ''model-b'']
                  \<lparr>errors = [], trace = []\<rparr>))) = 2"
proof -
  let ?a = "lit ''model-a''" and ?b = "lit ''model-b''"
  let ?mi = "JNum (Finite 10)" and ?q = "JStr (lit ''x'')"
  have ne: "?b \<noteq> ?a"
    by (simp add: lit_def)
  have a: "attempt agentMixed ?q ?a ?mi = Inl (mixedError ?a)"
    by (simp add: attempt_def runAgent_def agentMixed_def mixedError_def)
  have b: "attempt agentMixed ?q ?b ?mi = Inl (mixedError ?b)"
    using ne
    by (simp add: attempt_def runAgent_def agentMixed_def mixedError_def bigintEvent_def
          doneEvent_def onEvent_def initial_def resultJsonError_def Let_def
          lit_tool_end_neq_done lit_tool_end_neq_done [symmetric])
  have fails: "\<forall>m \<in> set [?a, ?b]. attempt agentMixed ?q m ?mi = Inl (mixedError m)"
    using a b by simp
  have chain: "getModelChain pairEnv (model (demoBody JUndefined)) = [?a, ?b]"
    by (simp add: demoBody_def pair_chain)
  have req: "httpMethod (researchRequest (demoBody JUndefined)) = lit ''POST''"
    "pathname (researchRequest (demoBody JUndefined)) = lit ''/api/research''"
    "json (researchRequest (demoBody JUndefined)) = Inr (demoBody JUndefined)"
    "truthy (query (demoBody JUndefined))" "?q = query (demoBody JUndefined)"
    "?mi = valOr (maxIterations (demoBody JUndefined)) (JNum (Finite 10))"
    by (simp_all add: researchRequest_def demoBody_def valOr_def lit_def)
  have errs: "mixedError ?a = ErrorObject (lit ''no key for model-a'')"
    "mixedError ?b = ErrorObject (lit ''JSON.stringify cannot serialize BigInt.'')"
    using ne by (simp_all add: mixedError_def boom_def lit_cat [symmetric])
  have msg: "lit ''All models failed. '' @
               join (lit '' | '') (map (\<lambda>m. m @ lit '': '' @ errMessage (mixedError m)) [?a, ?b]) =
             lit (''All models failed. model-a: no key for model-a'' @
                    '' | model-b: JSON.stringify cannot serialize BigInt.'')"
    by (simp add: errs lit_cat [symmetric])
  have ra: "raised (agentMixed ?a ?mi ?q) = Some (ErrorObject (lit ''no key for model-a''))"
    by (simp add: agentMixed_def boom_def lit_cat [symmetric])
  note inst = all_models_fail [where ms = "[?a, ?b]" and ag = agentMixed and mi = ?mi
      and q = ?q and err = mixedError and e = pairEnv
      and req = "researchRequest (demoBody JUndefined)" and b = "demoBody JUndefined", OF fails]
  from inst req chain
  have http: "fst (fetch pairEnv agentMixed (researchRequest (demoBody JUndefined))) =
            \<lparr>status = 500,
             payload = ErrorBody (lit ''All models failed. '' @
                         join (lit '' | '')
                           (map (\<lambda>m. m @ lit '': '' @ errMessage (mixedError m)) [?a, ?b]))\<rparr>
          \<and> startedModels (snd (fetch pairEnv agentMixed (researchRequest (demoBody JUndefined)))) =
              [?a, ?b]"
    by blast
  from inst
  have loop: "length (errors (snd (tryModels agentMixed ?q ?mi [?a, ?b]
                  \<lparr>errors = [], trace = []\<rparr>))) = length [?a, ?b]"
    by blast
  from http loop chain a b ra show ?thesis
    unfolding msg by (simp add: errs del: tryModels.simps)
qed

text \<open>
  With failure read as the specification defines it, the claim as first stated
  fails when the only model of the chain yields an empty stream, which has no
  \<open>done\<close> event: the answer is 200 with an empty result, not 500, and no failure
  is recorded.
\<close>

theorem all_models_fail_counterexample:
  "getModelChain bareEnv None = [lit ''gpt-5.2'']
   \<and> events (agentSilent (lit ''gpt-5.2'') (JNum (Finite 10)) (JStr (lit ''x''))) = []
   \<and> raised (agentSilent (lit ''gpt-5.2'') (JNum (Finite 10)) (JStr (lit ''x''))) = None
   \<and> fetch bareEnv agentSilent (researchRequest (demoBody JUndefined)) =
       (\<lparr>status = 200,
         payload = ResultBody
           \<lparr>answer = JStr [], toolCalls = [],
            iterations = JNum (Finite 0), totalTime = JNum (Finite 0)\<rparr>
           (lit ''gpt-5.2'')\<rparr>,
        [ConsoleLog (lit ''[research] trying model: gpt-5.2''),
         AgentRun (lit ''gpt-5.2'') (JNum (Finite 10)) (JStr (lit ''x''))])
   \<and> status (fst (fetch bareEnv agentSilent (researchRequest (demoBody JUndefined)))) \<noteq> 500
   \<and> failureLines (snd (fetch bareEnv agentSilent (researchRequest (demoBody JUndefined)))) = []"
proof -
  have req: "httpMethod (researchRequest (demoBody JUndefined)) = lit ''POST''"
    "pathname (researchRequest (demoBody JUndefined)) = lit ''/api/research''"
    "json (researchRequest (demoBody JUndefined)) = Inr (demoBody JUndefined)"
    "truthy (query (demoBody JUndefined))"
    by (simp_all add: researchRequest_def demoBody_def lit_def)
  have body: "query (demoBody JUndefined) = JStr (lit ''x'')"
    "valOr (maxIterations (demoBody JUndefined)) (JNum (Finite 10)) = JNum (Finite 10)"
    "model (demoBody JUndefined) = None"
    by (simp_all add: demoBody_def valOr_def)
  have att: "attempt agentSilent (JStr (lit ''x'')) (lit ''gpt-5.2'') (JNum (Finite 10)) =
       Inr \<lparr>status = 200,
         payload = ResultBody
           \<lparr>answer = JStr [], toolCalls = [],
            iterations = JNum (Finite 0), totalTime = JNum (Finite 0)\<rparr>
           (lit ''gpt-5.2'')\<rparr>"
    by (simp add: attempt_def runAgent_def agentSilent_def initial_def resultJsonError_def)
  have "fetch bareEnv agentSilent (researchRequest (demoBody JUndefined)) =
       (\<lparr>status = 200,
         payload = ResultBody
           \<lparr>answer = JStr [], toolCalls = [],
            iterations = JNum (Finite 0), totalTime = JNum (Finite 0)\<rparr>
           (lit ''gpt-5.2'')\<rparr>,
        [ConsoleLog (lit ''[research] trying model: gpt-5.2''),
         AgentRun (lit ''gpt-5.2'') (JNum (Finite 10)) (JStr (lit ''x''))])"
    unfolding fetch_research [OF req] body bare_chain
    by (simp add: att Let_def lit_cat [symmetric])
  then show ?thesis
    by (simp add: bare_chain agentSilent_def)
qed

text \<open>
  C6.  A \<open>POST /api/research\<close> whose body has no \<open>query\<close> member is answered with
  400 and \<open>{error: "Missing required field: query"}\<close>; nothing is logged and no
  agent run is started.
\<close>

theorem missing_query_rejected:
  assumes "httpMethod req = lit ''POST''" and "pathname req = lit ''/api/research''"
    and "json req = Inr b" and "query b = JUndefined"
  shows "fetch e ag req =
           (\<lparr>status = 400, payload = ErrorBody (lit ''Missing required field: query'')\<rparr>, [])
       \<and> startedModels (snd (fetch e ag req)) = []"
  using assms by (simp add: fetch_invalid)

theorem missing_query_rejected_witness:
  "query \<lparr>query = JUndefined, model = Some (lit ''model-c''), maxIterations = JNum (Finite 3)\<rparr>
     = JUndefined
   \<and> fetch demoEnv agentOnlyC
       (researchRequest
          \<lparr>query = JUndefined, model = Some (lit ''model-c''), maxIterations = JNum (Finite 3)\<rparr>) =
       (\<lparr>status = 400, payload = ErrorBody (lit ''Missing required field: query'')\<rparr>, [])"
  using missing_query_rejected [of
      "researchRequest
          \<lparr>query = JUndefined, model = Some (lit ''model-c''), maxIterations = JNum (Finite 3)\<rparr>"
      "\<lparr>query = JUndefined, model = Some (lit ''model-c''), maxIterations = JNum (Finite 3)\<rparr>"
      demoEnv agentOnlyC]
  by (simp add: researchRequest_def)

text \<open>
  C7.  The reduction of an event stream in \<open>runAgent\<close>: a \<open>tool_end\<close> event appends
  exactly one record \<open>{tool, args, duration}\<close> to \<open>toolCalls\<close>, a \<open>done\<close> event sets
  \<open>answer\<close>, \<open>iterations\<close> and \<open>totalTime\<close> from its fields, and an event of any
  other kind leaves the accumulated result unchanged.  Over a whole stream,
  \<open>toolCalls\<close> holds one record per \<open>tool_end\<close> event, in arrival order.  Three
  \<open>tool_end\<close> events followed by one \<open>done\<close> give three tool calls in emission order
  and the other fields of the \<open>done\<close> event; a stream with no \<open>tool_end\<close> event is
  reduced as well.  When the stream ends without raising, \<open>runAgent\<close> returns this
  reduction.
\<close>

theorem event_reduction:
  "(ev_type ev = lit ''tool_end'' \<longrightarrow>
      onEvent r ev = r\<lparr>toolCalls := toolCalls r @
                        [\<lparr>tool = ev_tool ev, args = ev_args ev, duration = ev_duration ev\<rparr>]\<rparr>)
   \<and> (ev_type ev = lit ''done'' \<longrightarrow>
      onEvent r ev = r\<lparr>answer := ev_answer ev, iterations := ev_iterations ev,
                       totalTime := ev_totalTime ev\<rparr>)
   \<and> (ev_type ev \<noteq> lit ''tool_end'' \<and> ev_type ev \<noteq> lit ''done'' \<longrightarrow> onEvent r ev = r)
   \<and> toolCalls (consume initial evs) =
       map (\<lambda>ev. \<lparr>tool = ev_tool ev, args = ev_args ev, duration = ev_duration ev\<rparr>)
         (filter (\<lambda>ev. ev_type ev = lit ''tool_end'') evs)
   \<and> (ev_type t1 = lit ''tool_end'' \<and> ev_type t2 = lit ''tool_end'' \<and>
      ev_type t3 = lit ''tool_end'' \<and> ev_type d = lit ''done'' \<longrightarrow>
      consume initial [t1, t2, t3, d] =
        \<lparr>answer = ev_answer d,
         toolCalls = [\<lparr>tool = ev_tool t1, args = ev_args t1, duration = ev_duration t1\<rparr>,
                      \<lparr>tool = ev_tool t2, args = ev_args t2, duration = ev_duration t2\<rparr>,
                      \<lparr>tool = ev_tool t3, args = ev_args t3, duration = ev_duration t3\<rparr>],
         iterations = ev_iterations d, totalTime = ev_totalTime d\<rparr>)
   \<and> (ev_type d = lit ''done'' \<longrightarrow>
      consume initial [d] =
        \<lparr>answer = ev_answer d, toolCalls = [],
         iterations = ev_iterations d, totalTime = ev_totalTime d\<rparr>)
   \<and> (raised (ag m mi q) = None \<longrightarrow>
      runAgent ag q m mi = Inr (consume initial (events (ag m mi q))))"
proof -
  have three: "consume initial [t1, t2, t3, d] =
        \<lparr>answer = ev_answer d,
         toolCalls = [\<lparr>tool = ev_tool t1, args = ev_args t1, duration = ev_duration t1\<rparr>,
                      \<lparr>tool = ev_tool t2, args = ev_args t2, duration = ev_duration t2\<rparr>,
                      \<lparr>tool = ev_tool t3, args = ev_args t3, duration = ev_duration t3\<rparr>],
         iterations = ev_iterations d, totalTime = ev_totalTime d\<rparr>"
    if "ev_type t1 = lit ''tool_end''" "ev_type t2 = lit ''tool_end''"
       "ev_type t3 = lit ''tool_end''" "ev_type d = lit ''done''"
    using that by (simp add: onEvent_tool_end onEvent_done initial_def)
  have one: "consume initial [d] =
        \<lparr>answer = ev_answer d, toolCalls = [],
         iterations = ev_iterations d, totalTime = ev_totalTime d\<rparr>"
    if "ev_type d = lit ''done''"
    using that by (simp add: onEvent_done initial_def)
  have calls: "toolCalls (consume initial evs) =
       map (\<lambda>ev. \<lparr>tool = ev_tool ev, args = ev_args ev, duration = ev_duration ev\<rparr>)
         (filter (\<lambda>ev. ev_type ev = lit ''tool_end'') evs)"
    by (simp add: toolCalls_consume initial_def)
  show ?thesis
    using three one calls
    by (intro conjI impI; (elim conjE)?)
       (simp_all add: onEvent_tool_end onEvent_done onEvent_other runAgent_ended)
qed

theorem event_reduction_witness:
  "consume initial [toolEndEvent (lit ''a''), toolEndEvent (lit ''b''), toolEndEvent (lit ''c''),
                    doneEvent (lit ''42'')] =
     \<lparr>answer = JStr (lit ''42''),
      toolCalls = [\<lparr>tool = JStr (lit ''a''), args = JObj [], duration = JNum (Finite 5)\<rparr>,
                   \<lparr>tool = JStr (lit ''b''), args = JObj [], duration = JNum (Finite 5)\<rparr>,
                   \<lparr>tool = JStr (lit ''c''), args = JObj [], duration = JNum (Finite 5)\<rparr>],
      iterations = JNum (Finite 2), totalTime = JNum (Finite 40)\<rparr>
   \<and> onEvent initial thinkingEvent = initial
   \<and> consume initial [doneEvent (lit ''42'')] =
       \<lparr>answer = JStr (lit ''42''), toolCalls = [],
        iterations = JNum (Finite 2), totalTime = JNum (Finite 40)\<rparr>
   \<and> runAgent agentOnlyC (JStr (lit ''x'')) (lit ''model-c'') (JNum (Finite 10)) =
       Inr \<lparr>answer = JStr (lit ''42''),
            toolCalls = [\<lparr>tool = JStr (lit ''search''), args = JObj [], duration = JNum (Finite 5)\<rparr>],
            iterations = JNum (Finite 2), totalTime = JNum (Finite 40)\<rparr>"
  using event_reduction [of thinkingEvent initial "[]" "toolEndEvent (lit ''a'')"
      "toolEndEvent (lit ''b'')" "toolEndEvent (lit ''c'')" "doneEvent (lit ''42'')"
      agentOnlyC "lit ''model-c''" "JNum (Finite 10)" "JStr (lit ''x'')"]
  by (simp add: toolEndEvent_def doneEvent_def thinkingEvent_def agentOnlyC_def runAgent_def
        onEvent_def initial_def lit_def Let_def)

text \<open>
  C8, as the code has it.  \<open>GET /api/health\<close> is answered with 200 and starts no
  agent run, in both servers.  The server with the fallback chain sends
  \<open>{status: "ok", primaryModel, fallbackModels}\<close>, where \<open>primaryModel\<close> is the first
  element of the chain built from the configuration and \<open>fallbackModels\<close> the rest.
  The server of \<open>src/server.ts\<close> has no chain and sends \<open>{status: "ok"}\<close> alone.
\<close>

theorem health_check:
  assumes "httpMethod req = lit ''GET''" and "pathname req = lit ''/api/health''"
  shows "fetch e ag req =
           (\<lparr>status = 200,
             payload = HealthBody (lit ''ok'') (Some (hd (getModelChain e None)))
                         (tl (getModelChain e None))\<rparr>, [])
       \<and> fetchBasic e ag req = (\<lparr>status = 200, payload = StatusBody (lit ''ok'')\<rparr>, [])"
proof -
  have "getModelChain e None \<noteq> []"
    by (simp add: getModelChain_def Let_def pushNew_nonempty)
  then obtain m ms where "getModelChain e None = m # ms"
    by (cases "getModelChain e None") auto
  then show ?thesis
    using assms by (simp add: fetch_def fetchBasic_def Let_def lit_GET_neq_OPTIONS)
qed

theorem health_check_witness:
  "httpMethod healthRequest = lit ''GET'' \<and> pathname healthRequest = lit ''/api/health''
   \<and> fetch demoEnv agentOnlyC healthRequest =
       (\<lparr>status = 200,
         payload = HealthBody (lit ''ok'') (Some (lit ''model-a''))
                     [lit ''model-b'', lit ''model-c'']\<rparr>, [])
   \<and> fetchBasic demoEnv agentOnlyC healthRequest =
       (\<lparr>status = 200, payload = StatusBody (lit ''ok'')\<rparr>, [])"
  using health_check [of healthRequest demoEnv agentOnlyC]
  by (simp add: healthRequest_def demo_chain)

text \<open>
  The health answer of \<open>src/server.ts\<close> carries the status only, whatever the
  configuration says about models.
\<close>

theorem health_body_counterexample:
  "fetchBasic demoEnv agentOnlyC healthRequest =
     (\<lparr>status = 200, payload = StatusBody (lit ''ok'')\<rparr>, [])
   \<and> getModelChain demoEnv None = [lit ''model-a'', lit ''model-b'', lit ''model-c'']
   \<and> payload (fst (fetchBasic demoEnv agentOnlyC healthRequest)) \<noteq>
       HealthBody (lit ''ok'') (Some (lit ''model-a'')) [lit ''model-b'', lit ''model-c'']"
  by (simp add: fetchBasic_def healthRequest_def demo_chain lit_GET_neq_OPTIONS)

text \<open>
  C9.  The presence check on \<open>query\<close> is a falsiness check.  A
  \<open>POST /api/research\<close> whose \<open>query\<close> is falsy, such as the empty string or the
  number 0, gets the same 400 answer as a request without \<open>query\<close>, and starts no
  agent run.
\<close>

theorem falsy_query_rejected:
  assumes "httpMethod req = lit ''POST''" and "pathname req = lit ''/api/research''"
    and "json req = Inr b" and "\<not> truthy (query b)"
  shows "fetch e ag req =
           (\<lparr>status = 400, payload = ErrorBody (lit ''Missing required field: query'')\<rparr>, [])
       \<and> fetch e ag req = fetch e ag (req\<lparr>json := Inr (b\<lparr>query := JUndefined\<rparr>)\<rparr>)
       \<and> \<not> truthy (JStr []) \<and> \<not> truthy (JNum (Finite 0))"
proof -
  have absent: "fetch e ag (req\<lparr>json := Inr (b\<lparr>query := JUndefined\<rparr>)\<rparr>) =
           (\<lparr>status = 400, payload = ErrorBody (lit ''Missing required field: query'')\<rparr>, [])"
    using assms by (simp add: fetch_invalid)
  show ?thesis
    using assms absent by (simp add: fetch_invalid)
qed

theorem falsy_query_rejected_witness:
  "\<not> truthy (query (\<lparr>query = JStr [], model = None, maxIterations = JUndefined\<rparr>))
   \<and> fetch demoEnv agentOnlyC
       (researchRequest \<lparr>query = JStr [], model = None, maxIterations = JUndefined\<rparr>) =
       (\<lparr>status = 400, payload = ErrorBody (lit ''Missing required field: query'')\<rparr>, [])
   \<and> \<not> truthy (query (\<lparr>query = JNum (Finite 0), model = None, maxIterations = JUndefined\<rparr>))
   \<and> fetch demoEnv agentOnlyC
       (researchRequest \<lparr>query = JNum (Finite 0), model = None, maxIterations = JUndefined\<rparr>) =
       (\<lparr>status = 400, payload = ErrorBody (lit ''Missing required field: query'')\<rparr>, [])"
  using falsy_query_rejected [of
      "researchRequest \<lparr>query = JStr [], model = None, maxIterations = JUndefined\<rparr>"
      "\<lparr>query = JStr [], model = None, maxIterations = JUndefined\<rparr>" demoEnv agentOnlyC]
    falsy_query_rejected [of
      "researchRequest \<lparr>query = JNum (Finite 0), model = None, maxIterations = JUndefined\<rparr>"
      "\<lparr>query = JNum (Finite 0), model = None, maxIterations = JUndefined\<rparr>" demoEnv agentOnlyC]
  by (simp add: researchRequest_def)



end
